theory Spec2Isabelle
  imports Complex_Main "HOL-Library.Multiset" "HOL-Library.Product_Lexorder"
begin

section \<open>Floating-point values\<close>

text \<open>
  The program computes with IEEE-754 doubles. They are modelled as the reals extended with
  the two infinities and NaN. Arithmetic on finite values is exact (rounding error and
  overflow are not modelled) and the two zeros are identified. Comparisons follow IEEE-754:
  every ordered comparison with NaN is false.
\<close>

datatype float64 = Fin real | PInf | NInf | NaN

fun isnan :: "float64 \<Rightarrow> bool" where
  "isnan NaN = True"
| "isnan _ = False"

text \<open>\<open>flt a b\<close> is the comparison \<open>a < b\<close> of the source, \<open>fgt a b\<close> is \<open>a > b\<close>.\<close>

fun flt :: "float64 \<Rightarrow> float64 \<Rightarrow> bool" where
  "flt NaN _ = False"
| "flt _ NaN = False"
| "flt (Fin a) (Fin b) = (a < b)"
| "flt (Fin a) PInf = True"
| "flt (Fin a) NInf = False"
| "flt PInf _ = False"
| "flt NInf NInf = False"
| "flt NInf _ = True"

definition fgt :: "float64 \<Rightarrow> float64 \<Rightarrow> bool" where
  "fgt a b = flt b a"

fun fsub :: "float64 \<Rightarrow> float64 \<Rightarrow> float64" where
  "fsub NaN _ = NaN"
| "fsub _ NaN = NaN"
| "fsub (Fin a) (Fin b) = Fin (a - b)"
| "fsub (Fin a) PInf = NInf"
| "fsub (Fin a) NInf = PInf"
| "fsub PInf PInf = NaN"
| "fsub PInf _ = PInf"
| "fsub NInf NInf = NaN"
| "fsub NInf _ = NInf"

fun fmul_inf :: "real \<Rightarrow> float64" where
  "fmul_inf a = (if a = 0 then NaN else if 0 < a then PInf else NInf)"

fun fneg :: "float64 \<Rightarrow> float64" where
  "fneg (Fin a) = Fin (- a)"
| "fneg PInf = NInf"
| "fneg NInf = PInf"
| "fneg NaN = NaN"

fun fmul :: "float64 \<Rightarrow> float64 \<Rightarrow> float64" where
  "fmul NaN _ = NaN"
| "fmul _ NaN = NaN"
| "fmul (Fin a) (Fin b) = Fin (a * b)"
| "fmul (Fin a) PInf = fmul_inf a"
| "fmul (Fin a) NInf = fneg (fmul_inf a)"
| "fmul PInf (Fin b) = fmul_inf b"
| "fmul NInf (Fin b) = fneg (fmul_inf b)"
| "fmul PInf PInf = PInf"
| "fmul NInf NInf = PInf"
| "fmul PInf NInf = NInf"
| "fmul NInf PInf = NInf"

text \<open>
  Division as NumPy does it on doubles: no exception, a zero divisor gives an infinity
  (or NaN for \<open>0 / 0\<close>). The model's only zero stands for \<open>+0.0\<close>.
\<close>

fun fdiv :: "float64 \<Rightarrow> float64 \<Rightarrow> float64" where
  "fdiv NaN _ = NaN"
| "fdiv _ NaN = NaN"
| "fdiv (Fin a) (Fin b) = (if b = 0 then fmul_inf a else Fin (a / b))"
| "fdiv (Fin a) _ = Fin 0"
| "fdiv PInf (Fin b) = (if 0 \<le> b then PInf else NInf)"
| "fdiv NInf (Fin b) = (if 0 \<le> b then NInf else PInf)"
| "fdiv _ _ = NaN"

text \<open>
  \<open>round(x, 0)\<close> on a NumPy double rounds to the nearest integer, a tie going to the even
  neighbour, and leaves infinities and NaN as they are.
\<close>

definition round_half_even :: "real \<Rightarrow> int" where
  "round_half_even x =
     (let f = \<lfloor>x\<rfloor>; d = x - of_int f
      in if d < 1 / 2 then f else if 1 / 2 < d then f + 1 else if even f then f else f + 1)"

fun fround :: "float64 \<Rightarrow> float64" where
  "fround (Fin x) = Fin (of_int (round_half_even x))"
| "fround PInf = PInf"
| "fround NInf = NInf"
| "fround NaN = NaN"

section \<open>Errors and the statistics library\<close>

text \<open>
  An exception of the source is a value \<open>Inl e\<close>. \<open>LibraryError\<close> stands for any
  exception raised inside a library routine.
\<close>

datatype error = IndexError | KeyError string | LibraryError string

text \<open>
  The routines of statsmodels, NumPy and pandas that the program calls are parameters
  of the model, collected in one record:
  \<^item> \<open>coint s1 s2\<close> is \<open>statsmodels.tsa.stattools.coint\<close>: the test statistic, the p-value
    and the array of critical values (1%, 5%, 10% in this order);
  \<^item> \<open>adfuller s\<close> is \<open>statsmodels.tsa.stattools.adfuller\<close>, reduced to the two components
    the program reads: the test statistic (\<open>result[0]\<close>) and the dictionary of critical
    values (\<open>result[4]\<close>);
  \<^item> \<open>window_fit endog exog\<close> is the least-squares coefficient of one window of the rolling
    regression, for the single regressor column \<open>exog\<close>;
  \<^item> \<open>add_constant xs\<close> is \<open>statsmodels.api.add_constant\<close>: the columns of the design
    matrix, the constant column put before \<open>xs\<close>;
  \<^item> \<open>OLS_fit endog exog\<close> is \<open>sm.OLS(endog, exog).fit().params\<close>, one coefficient per
    column of \<open>exog\<close>, so that coefficient 0 is the intercept and coefficient 1 the slope;
  \<^item> \<open>argsort keys\<close> is the index permutation that \<open>DataFrame.sort_values\<close> computes for a
    key column (default \<open>kind='quicksort'\<close>).
\<close>

record library =
  coint :: "float64 list \<Rightarrow> float64 list \<Rightarrow> error + (float64 \<times> float64 \<times> float64 list)"
  adfuller :: "float64 list \<Rightarrow> error + (float64 \<times> (string \<times> float64) list)"
  window_fit :: "float64 list \<Rightarrow> float64 list \<Rightarrow> float64"
  add_constant :: "float64 list \<Rightarrow> float64 list list"
  OLS_fit :: "float64 list \<Rightarrow> float64 list list \<Rightarrow> error + float64 list"
  argsort :: "float64 list \<Rightarrow> nat list"

section \<open>The four estimators\<close>

subsection \<open>calculate_cointegration\<close>

text \<open>
  The two \<open>astype(np.float)\<close> conversions are the identity on a numeric series
  (\<open>np.float\<close> is the alias of \<open>float\<close> in the NumPy releases that have it).
  \<open>coint_res[2][1]\<close> raises IndexError on an array with fewer than two entries.
\<close>

definition calculate_cointegration :: "library \<Rightarrow> float64 list \<Rightarrow> float64 list \<Rightarrow> error + int" where
  "calculate_cointegration lib series_1 series_2 =
     (case coint lib series_1 series_2 of
        Inl e \<Rightarrow> Inl e
      | Inr (coint_t, p_value, crit) \<Rightarrow>
          if length crit \<le> 1 then Inl IndexError
          else
            let critical_value = crit ! 1;
                t_check = flt coint_t critical_value
            in Inr (if flt p_value (Fin (5 / 100)) \<and> t_check then 1 else 0))"

subsection \<open>test_for_stationarity\<close>

definition test_for_stationarity :: "library \<Rightarrow> float64 list \<Rightarrow> error + bool" where
  "test_for_stationarity lib spread =
     (case adfuller lib spread of
        Inl e \<Rightarrow> Inl e
      | Inr (test_statistic, critical_values) \<Rightarrow>
          (case map_of critical_values ''1%'' of
             None \<Rightarrow> Inl (KeyError ''1%'')
           | Some c \<Rightarrow> Inr (flt test_statistic c)))"

subsection \<open>calculate_hedge_ratio_and_spread\<close>

text \<open>
  A price table is the list of its columns in order, each a label with its values.
  The columns of a table have one common length and hold numbers; the labels are
  distinct and differ from \<open>hedge_ratio\<close> and \<open>spread\<close>, the columns the program adds.
  \<open>df[name]\<close> raises KeyError for a label that is not a column.
\<close>

type_synonym table = "(string \<times> float64 list) list"

definition column :: "table \<Rightarrow> string \<Rightarrow> error + float64 list" where
  "column df name = (case map_of df name of None \<Rightarrow> Inl (KeyError name) | Some xs \<Rightarrow> Inr xs)"

text \<open>The rows \<open>i - window + 1 .. i\<close> of a column: the window that ends at index \<open>i\<close>.\<close>

definition window_rows :: "nat \<Rightarrow> nat \<Rightarrow> 'a list \<Rightarrow> 'a list" where
  "window_rows window i xs = take window (drop (i + 1 - window) xs)"

text \<open>
  Modelled from the spec: \<open>RollingOLS(endog, exog, window).fit().params\<close> of statsmodels,
  whose code is not part of the repository. For each index \<open>i \<ge> window - 1\<close> it holds
  the coefficient fitted on the rows \<open>i - window + 1 .. i\<close>; for the earlier indices it
  holds NaN. The regressor is the one column \<open>exog\<close> as the caller passes it: no column
  of ones is added, so the fit has no intercept.
\<close>

definition RollingOLS_params ::
  "(float64 list \<Rightarrow> float64 list \<Rightarrow> float64) \<Rightarrow> float64 list \<Rightarrow> float64 list \<Rightarrow> nat \<Rightarrow> float64 list" where
  "RollingOLS_params fit endog exog window =
     map (\<lambda>i. if i + 1 < window then NaN
              else fit (window_rows window i endog) (window_rows window i exog))
         [0..<length endog]"

text \<open>The result is the pair of the columns \<open>hedge_ratio\<close> and \<open>spread\<close>.\<close>

definition calculate_hedge_ratio_and_spread ::
  "library \<Rightarrow> table \<Rightarrow> string \<Rightarrow> string \<Rightarrow> error + (float64 list \<times> float64 list)" where
  "calculate_hedge_ratio_and_spread lib coint_pair_df base_market quote_market =
     (case column coint_pair_df base_market of
        Inl e \<Rightarrow> Inl e
      | Inr base \<Rightarrow>
          (case column coint_pair_df quote_market of
             Inl e \<Rightarrow> Inl e
           | Inr quote \<Rightarrow>
               let hedge_ratio = RollingOLS_params (window_fit lib) base quote 168;
                   spread = map (\<lambda>(b, q, h). fsub b (fmul q h)) (zip base (zip quote hedge_ratio))
               in Inr (hedge_ratio, spread)))"

subsection \<open>calculate_half_life\<close>

text \<open>\<open>Series.shift(1)\<close>: every value moves one place down, the first place holds NaN.\<close>

definition shift1 :: "float64 list \<Rightarrow> float64 list" where
  "shift1 xs = (if xs = [] then [] else NaN # butlast xs)"

text \<open>
  \<open>spread_lag.iloc[1]\<close> raises IndexError on a series shorter than two, and so does
  \<open>res.params[1]\<close> when the fit has fewer than two coefficients.
\<close>

definition calculate_half_life :: "library \<Rightarrow> float64 list \<Rightarrow> error + float64" where
  "calculate_half_life lib spread =
     (let spread_lag = shift1 spread
      in if length spread_lag < 2 then Inl IndexError
         else
           let spread_lag = spread_lag[0 := spread_lag ! 1];
               spread_ret = map (\<lambda>(s, l). fsub s l) (zip spread spread_lag);
               spread_ret = spread_ret[0 := spread_ret ! 1];
               spread_lag2 = add_constant lib spread_lag
           in (case OLS_fit lib spread_ret spread_lag2 of
                 Inl e \<Rightarrow> Inl e
               | Inr params \<Rightarrow>
                   if length params < 2 then Inl IndexError
                   else Inr (fround (fdiv (fneg (Fin (ln 2))) (params ! 1)))))"

section \<open>store_cointegration_results\<close>

text \<open>One accepted pair: the dictionary with the keys \<open>base_market\<close>, \<open>quote_market\<close>, \<open>half_life\<close>.\<close>

record result_row =
  row_base_market :: string
  row_quote_market :: string
  row_half_life :: float64

text \<open>
  The pair's table after the columns \<open>hedge_ratio\<close> and \<open>spread\<close> have been added:
  a row is (base, quote, hedge_ratio, spread). \<open>DataFrame.dropna\<close> keeps a row when none
  of its values is NaN.
\<close>

type_synonym pair_row = "float64 \<times> float64 \<times> float64 \<times> float64"

definition pair_rows :: "float64 list \<Rightarrow> float64 list \<Rightarrow> float64 list \<Rightarrow> float64 list \<Rightarrow> pair_row list" where
  "pair_rows series_1 series_2 hedge_ratio spread = zip series_1 (zip series_2 (zip hedge_ratio spread))"

definition dropna :: "pair_row list \<Rightarrow> pair_row list" where
  "dropna rows = filter (\<lambda>(b, q, h, s). \<not> isnan b \<and> \<not> isnan q \<and> \<not> isnan h \<and> \<not> isnan s) rows"

definition spread_column :: "pair_row list \<Rightarrow> float64 list" where
  "spread_column rows = map (\<lambda>(b, q, h, s). s) rows"

text \<open>
  The body of the inner loop for one quote market: the criteria are checked in turn, and
  \<open>continue\<close> leaves the list of accepted pairs as it is.
\<close>

definition check_pair ::
  "library \<Rightarrow> table \<Rightarrow> string \<Rightarrow> float64 list \<Rightarrow> string \<Rightarrow> result_row list \<Rightarrow> error + result_row list" where
  "check_pair lib df_market_prices base_market series_1 quote_market criteria_met_pairs =
     (case column df_market_prices quote_market of
        Inl e \<Rightarrow> Inl e
      | Inr series_2 \<Rightarrow>
     (case calculate_cointegration lib series_1 series_2 of
        Inl e \<Rightarrow> Inl e
      | Inr coint_flag \<Rightarrow>
          if coint_flag \<noteq> 1 then Inr criteria_met_pairs
          else
            let coint_pair_df = [(base_market, series_1), (quote_market, series_2)]
            in (case calculate_hedge_ratio_and_spread lib coint_pair_df base_market quote_market of
                  Inl e \<Rightarrow> Inl e
                | Inr (hedge_ratio, spread) \<Rightarrow>
                    let coint_pair_df = dropna (pair_rows series_1 series_2 hedge_ratio spread)
                    in (case test_for_stationarity lib (spread_column coint_pair_df) of
                          Inl e \<Rightarrow> Inl e
                        | Inr stationary_flag \<Rightarrow>
                            if \<not> stationary_flag then Inr criteria_met_pairs
                            else
                              (case calculate_half_life lib (spread_column coint_pair_df) of
                                 Inl e \<Rightarrow> Inl e
                               | Inr half_life \<Rightarrow>
                                   if flt half_life (Fin 0) \<or> fgt half_life (Fin 24)
                                   then Inr criteria_met_pairs
                                   else Inr (criteria_met_pairs @
                                     [\<lparr>row_base_market = base_market,
                                       row_quote_market = quote_market,
                                       row_half_life = half_life\<rparr>]))))))"

text \<open>The inner loop over \<open>markets[index + 1:]\<close> and the outer loop over \<open>enumerate(markets[:-1])\<close>.\<close>

fun quote_loop ::
  "library \<Rightarrow> table \<Rightarrow> string \<Rightarrow> float64 list \<Rightarrow> string list \<Rightarrow> result_row list \<Rightarrow> error + result_row list" where
  "quote_loop lib df base_market series_1 [] acc = Inr acc"
| "quote_loop lib df base_market series_1 (quote_market # rest) acc =
     (case check_pair lib df base_market series_1 quote_market acc of
        Inl e \<Rightarrow> Inl e
      | Inr acc' \<Rightarrow> quote_loop lib df base_market series_1 rest acc')"

fun base_loop ::
  "library \<Rightarrow> table \<Rightarrow> string list \<Rightarrow> (nat \<times> string) list \<Rightarrow> result_row list \<Rightarrow> error + result_row list" where
  "base_loop lib df markets [] acc = Inr acc"
| "base_loop lib df markets ((index, base_market) # rest) acc =
     (case column df base_market of
        Inl e \<Rightarrow> Inl e
      | Inr series_1 \<Rightarrow>
          (case quote_loop lib df base_market series_1 (drop (index + 1) markets) acc of
             Inl e \<Rightarrow> Inl e
           | Inr acc' \<Rightarrow> base_loop lib df markets rest acc'))"

text \<open>
  \<open>pd.DataFrame(criteria_met_pairs)\<close> takes its columns from the keys of the rows, so the
  table built from the empty list has no column, and \<open>sort_values(by="half_life")\<close> raises
  KeyError on it. Otherwise the rows are reordered by the index permutation that the
  library computes for the key column.
\<close>

definition sort_values :: "library \<Rightarrow> result_row list \<Rightarrow> error + result_row list" where
  "sort_values lib rows =
     (if rows = [] then Inl (KeyError ''half_life'')
      else Inr (map (\<lambda>i. rows ! i) (argsort lib (map row_half_life rows))))"

text \<open>
  A successful run returns the rows written to \<open>cointegrated_pairs.csv\<close> with the value
  the function returns. A run that raises writes no file.
\<close>

definition store_cointegration_results :: "library \<Rightarrow> table \<Rightarrow> error + (result_row list \<times> string)" where
  "store_cointegration_results lib df_market_prices =
     (let markets = map fst df_market_prices
      in (case base_loop lib df_market_prices markets (enumerate 0 (butlast markets)) [] of
            Inl e \<Rightarrow> Inl e
          | Inr criteria_met_pairs \<Rightarrow>
              (case sort_values lib criteria_met_pairs of
                 Inl e \<Rightarrow> Inl e
               | Inr df_criteria_met \<Rightarrow> Inr (df_criteria_met, ''saved''))))"

section \<open>Reference definitions\<close>

text \<open>\<open>fle a b\<close> is \<open>a \<le> b\<close> on doubles: false when either side is NaN.\<close>

definition fle :: "float64 \<Rightarrow> float64 \<Rightarrow> bool" where
  "fle a b = (\<not> isnan a \<and> \<not> isnan b \<and> \<not> flt b a)"

text \<open>
  The half-life estimator as the specification words it: the lagged series is
  \<open>S_lag[i] = S[i-1]\<close> with \<open>S_lag[0] := S_lag[1]\<close>, the differences are
  \<open>S[i] - S_lag[i]\<close> with the value at index 0 replaced by the value at index 1.
\<close>

definition lag_spec :: "float64 list \<Rightarrow> float64 list" where
  "lag_spec S = map (\<lambda>i. if i = 0 then S ! (1 - 1) else S ! (i - 1)) [0..<length S]"

definition delta_spec :: "float64 list \<Rightarrow> float64 list" where
  "delta_spec S =
     map (\<lambda>i. if i = 0 then fsub (S ! 1) (lag_spec S ! 1) else fsub (S ! i) (lag_spec S ! i))
         [0..<length S]"


text \<open>
  The enumeration of candidate pairs as the specification words it: base index \<open>i\<close> from
  0 to \<open>n - 2\<close>, quote index \<open>j\<close> from \<open>i + 1\<close> to \<open>n - 1\<close>; and the screening as one pass
  over a list of index pairs, each pair evaluated by the loop body of the source.
\<close>

definition index_pairs_spec :: "nat \<Rightarrow> (nat \<times> nat) list" where
  "index_pairs_spec n = concat (map (\<lambda>i. map (\<lambda>j. (i, j)) [i + 1..<n]) [0..<n - 1])"

fun pairs_loop_spec ::
  "library \<Rightarrow> table \<Rightarrow> string list \<Rightarrow> (nat \<times> nat) list \<Rightarrow> result_row list \<Rightarrow> error + result_row list" where
  "pairs_loop_spec lib df markets [] acc = Inr acc"
| "pairs_loop_spec lib df markets ((i, j) # rest) acc =
     (case column df (markets ! i) of
        Inl e \<Rightarrow> Inl e
      | Inr series_1 \<Rightarrow>
          (case check_pair lib df (markets ! i) series_1 (markets ! j) acc of
             Inl e \<Rightarrow> Inl e
           | Inr acc' \<Rightarrow> pairs_loop_spec lib df markets rest acc'))"




section \<open>An instance of the library for examples\<close>

text \<open>
  Fixed answers stand for the statistics: the cointegration test and the unit-root test
  pass on every series without NaN, every window has hedge ratio 0, and the regression
  of the half-life has intercept 0 and the first difference as its slope. The sort is
  an insertion sort on the keys, NaN last.
\<close>

definition rank :: "float64 \<Rightarrow> nat \<times> real" where
  "rank h = (case h of NInf \<Rightarrow> (0, 0) | Fin x \<Rightarrow> (1, x) | PInf \<Rightarrow> (2, 0) | NaN \<Rightarrow> (3, 0))"

definition ols_ex :: "float64 list \<Rightarrow> float64 list list \<Rightarrow> error + float64 list" where
  "ols_ex endog exog = (if endog = [] then Inl (LibraryError ''empty'') else Inr [Fin 0, hd endog])"

definition lib_ex :: library where
  "lib_ex =
     \<lparr>coint = (\<lambda>s1 s2.
        if list_ex isnan (s1 @ s2) then Inl (LibraryError ''MissingDataError'')
        else Inr (Fin (- 4), Fin (1 / 100), [Fin (- 39 / 10), Fin (- 33 / 10), Fin (- 3)])),
      adfuller = (\<lambda>s.
        Inr (Fin (- 4), [(''1%'', Fin (- 35 / 10)), (''5%'', Fin (- 29 / 10)), (''10%'', Fin (- 26 / 10))])),
      window_fit = (\<lambda>endog exog. Fin 0),
      add_constant = (\<lambda>xs. [replicate (length xs) (Fin 1), xs]),
      OLS_fit = ols_ex,
      argsort = (\<lambda>keys. sort_key (\<lambda>i. rank (keys ! i)) [0..<length keys])\<rparr>"

text \<open>The same library with a cointegration test that no pair passes.\<close>

definition lib_no_coint :: library where
  "lib_no_coint =
     lib_ex\<lparr>coint := (\<lambda>s1 s2.
       Inr (Fin (- 1), Fin (1 / 2), [Fin (- 39 / 10), Fin (- 33 / 10), Fin (- 3)]))\<rparr>"

text \<open>The same library with a unit-root statistic between the 1% and the 5% critical value.\<close>

definition lib_weak_adf :: library where
  "lib_weak_adf =
     lib_ex\<lparr>adfuller := (\<lambda>s.
       Inr (Fin (- 32 / 10), [(''1%'', Fin (- 35 / 10)), (''5%'', Fin (- 29 / 10)), (''10%'', Fin (- 26 / 10))]))\<rparr>"

text \<open>The same library with a degenerate half-life regression: no coefficient is defined.\<close>

definition lib_nan :: library where
  "lib_nan = lib_ex\<lparr>OLS_fit := (\<lambda>endog exog. Inr [NaN, NaN])\<rparr>"


text \<open>Price series of 169 observations, and one with a missing value.\<close>

definition sA :: "float64 list" where "sA = replicate 167 (Fin 1) @ [Fin 1, Fin 0]"
definition sB :: "float64 list" where "sB = replicate 167 (Fin 4) @ [Fin 4, Fin 0]"
definition sC :: "float64 list" where "sC = replicate 167 (Fin 2) @ [Fin 2, Fin 3]"
definition sX :: "float64 list" where "sX = replicate 167 (Fin 1) @ [NaN, Fin 1]"

text \<open>Price tables: three good series, and a series with a missing value in two positions.\<close>

definition df_ABC :: table where "df_ABC = [(''A'', sA), (''B'', sB), (''C'', sC)]"
definition df_ABX :: table where "df_ABX = [(''A'', sA), (''B'', sB), (''X'', sX)]"
definition df_AXB :: table where "df_AXB = [(''A'', sA), (''X'', sX), (''B'', sB)]"

text \<open>Two short series that the cointegration test of \<open>lib_no_coint\<close> rejects.\<close>

definition df_rw :: table where
  "df_rw = [(''A'', [Fin 1, Fin 2, Fin 1, Fin 0]), (''B'', [Fin 5, Fin 4, Fin 6, Fin 7])]"

text \<open>The rows of the pairs that the example library accepts on the three good series.\<close>

definition row_AB :: result_row where
  "row_AB = \<lparr>row_base_market = ''A'', row_quote_market = ''B'', row_half_life = Fin 1\<rparr>"

lemma ln2_gt_half: "1/2 < ln (2::real)"
proof -
  have "exp (1/2 :: real) ^ 2 = exp 1" by (simp add: exp_double [symmetric])
  moreover have "exp (1::real) \<le> 3" by (rule exp_le)
  ultimately have "exp (1/2 :: real) ^ 2 < 2 ^ 2" by simp
  then have "exp (1/2 :: real) < 2" by (rule power2_less_imp_less) simp
  then have "ln (exp (1/2 :: real)) < ln 2" by (subst ln_less_cancel_iff) simp_all
  then show ?thesis by simp
qed

lemma ln2_le_1: "ln (2::real) \<le> 1"
  using ln_add_one_self_le_self[of 1] by simp


lemma round_ln2: "round_half_even (ln 2) = 1"
proof -
  have "\<lfloor>ln (2::real)\<rfloor> = 0 \<or> \<lfloor>ln (2::real)\<rfloor> = 1"
    using ln2_gt_half ln2_le_1 by linarith
  then show ?thesis
    using ln2_gt_half ln2_le_1 by (auto simp: round_half_even_def Let_def; linarith)
qed


lemma RollingOLS_params_split:
  assumes "0 < w"
  shows "RollingOLS_params fit endog exog w =
     replicate (min (w - 1) (length endog)) NaN @
     map (\<lambda>i. fit (window_rows w i endog) (window_rows w i exog)) [w - 1..<length endog]"
proof -
  let ?n = "length endog"
  let ?f = "\<lambda>i. if i + 1 < w then NaN else fit (window_rows w i endog) (window_rows w i exog)"
  have "[0..<?n] = [0..<min (w - 1) ?n] @ [min (w - 1) ?n..<?n]"
    by (metis le_add_diff_inverse min.cobounded2 upt_add_eq_append zero_le)
  then have "map ?f [0..<?n] = map ?f [0..<min (w - 1) ?n] @ map ?f [min (w - 1) ?n..<?n]"
    by (metis map_append)
  moreover have "map ?f [0..<min (w - 1) ?n] = replicate (min (w - 1) ?n) NaN"
  proof -
    have "map ?f [0..<min (w - 1) ?n] = map (\<lambda>i. NaN) [0..<min (w - 1) ?n]"
      by (rule map_cong) auto
    then show ?thesis by (simp add: map_replicate_const)
  qed
  moreover have "map ?f [min (w - 1) ?n..<?n] = map (\<lambda>i. fit (window_rows w i endog) (window_rows w i exog)) [w - 1..<?n]"
    using assms by (cases "w - 1 \<le> ?n") (auto simp: min_def)
  ultimately show ?thesis by (simp add: RollingOLS_params_def)
qed

section \<open>The decision rules of the two tests\<close>

text \<open>
  C1: when the cointegration test returns the statistic \<open>t\<close>, the p-value \<open>p\<close> and the
  critical values \<open>[c1, c5, c10]\<close>, \<open>calculate_cointegration\<close> returns 1 if and only if
  \<open>p < 0.05\<close> and \<open>t < c5\<close>, the middle entry of the table, and returns 0 otherwise.
\<close>

theorem calculate_cointegration_decision:
  assumes "coint lib series_1 series_2 = Inr (t, p, [c1, c5, c10])"
  shows "(calculate_cointegration lib series_1 series_2 = Inr 1
            \<longleftrightarrow> flt p (Fin (5 / 100)) \<and> flt t c5) \<and>
         (calculate_cointegration lib series_1 series_2 = Inr 0
            \<longleftrightarrow> \<not> (flt p (Fin (5 / 100)) \<and> flt t c5)) \<and>
         (calculate_cointegration lib series_1 series_2 = Inr 1 \<or>
          calculate_cointegration lib series_1 series_2 = Inr 0)"
  using assms by (simp add: calculate_cointegration_def)

text \<open>The rule at work on the example library.\<close>

theorem calculate_cointegration_decision_witness:
  "coint lib_ex [Fin 1, Fin 2, Fin 3] [Fin 2, Fin 4, Fin 5] =
     Inr (Fin (- 4), Fin (1 / 100), [Fin (- 39 / 10), Fin (- 33 / 10), Fin (- 3)]) \<and>
   flt (Fin (1 / 100)) (Fin (5 / 100)) \<and> flt (Fin (- 4)) (Fin (- 33 / 10)) \<and>
   calculate_cointegration lib_ex [Fin 1, Fin 2, Fin 3] [Fin 2, Fin 4, Fin 5] = Inr 1"
proof -
  have h: "coint lib_ex [Fin 1, Fin 2, Fin 3] [Fin 2, Fin 4, Fin 5] =
     Inr (Fin (- 4), Fin (1 / 100), [Fin (- 39 / 10), Fin (- 33 / 10), Fin (- 3)])"
    by (simp add: lib_ex_def)
  show ?thesis using h calculate_cointegration_decision [OF h] by simp
qed

text \<open>
  C2: \<open>test_for_stationarity\<close> returns whether the test statistic is below the 1% critical
  value; a statistic from the 1% critical value up to the 5% critical value gives False.
\<close>

theorem test_for_stationarity_decision:
  assumes "adfuller lib spread = Inr (t, critical_values)"
    and "map_of critical_values ''1%'' = Some c1"
    and "map_of critical_values ''5%'' = Some c5"
  shows "test_for_stationarity lib spread = Inr (flt t c1) \<and>
         (fle c1 t \<and> fle t c5 \<longrightarrow> test_for_stationarity lib spread = Inr False)"
  using assms by (simp add: test_for_stationarity_def fle_def)

text \<open>A statistic of -3.2 between the critical values -3.5 and -2.9 is not stationary.\<close>

theorem test_for_stationarity_decision_witness:
  "adfuller lib_weak_adf [Fin 1, Fin 2] =
     Inr (Fin (- 32 / 10), [(''1%'', Fin (- 35 / 10)), (''5%'', Fin (- 29 / 10)), (''10%'', Fin (- 26 / 10))]) \<and>
   fle (Fin (- 35 / 10)) (Fin (- 32 / 10)) \<and> fle (Fin (- 32 / 10)) (Fin (- 29 / 10)) \<and>
   test_for_stationarity lib_weak_adf [Fin 1, Fin 2] = Inr False"
proof -
  let ?crit = "[(''1%'', Fin (- 35 / 10)), (''5%'', Fin (- 29 / 10)), (''10%'', Fin (- 26 / 10))]"
  have h: "adfuller lib_weak_adf [Fin 1, Fin 2] = Inr (Fin (- 32 / 10), ?crit)"
    by (simp add: lib_weak_adf_def lib_ex_def)
  have c1: "map_of ?crit ''1%'' = Some (Fin (- 35 / 10))" by simp
  have c5: "map_of ?crit ''5%'' = Some (Fin (- 29 / 10))" by simp
  show ?thesis
    using h test_for_stationarity_decision [OF h c1 c5] by (simp add: fle_def)
qed

section \<open>Hedge ratio, spread and half-life\<close>






lemma lag_source_eq_spec:
  assumes "2 \<le> length S"
  shows "(shift1 S)[0 := shift1 S ! 1] = lag_spec S"
proof (rule nth_equalityI)
  show "length ((shift1 S)[0 := shift1 S ! 1]) = length (lag_spec S)"
    using assms by (auto simp: shift1_def lag_spec_def)
next
  fix i assume "i < length ((shift1 S)[0 := shift1 S ! 1])"
  then have i: "i < length S" using assms by (auto simp: shift1_def split: if_splits)
  show "(shift1 S)[0 := shift1 S ! 1] ! i = lag_spec S ! i"
  proof (cases i)
    case 0
    then show ?thesis using assms i by (auto simp: shift1_def lag_spec_def nth_butlast)
  next
    case (Suc k)
    then show ?thesis using assms i by (auto simp: shift1_def lag_spec_def nth_butlast)
  qed
qed

lemma delta_source_eq_spec:
  assumes "2 \<le> length S"
  shows "(map (\<lambda>(s, l). fsub s l) (zip S (lag_spec S)))
           [0 := map (\<lambda>(s, l). fsub s l) (zip S (lag_spec S)) ! 1] = delta_spec S"
proof (rule nth_equalityI)
  show "length ((map (\<lambda>(s, l). fsub s l) (zip S (lag_spec S)))
           [0 := map (\<lambda>(s, l). fsub s l) (zip S (lag_spec S)) ! 1]) = length (delta_spec S)"
    by (simp add: delta_spec_def lag_spec_def)
next
  fix i assume "i < length ((map (\<lambda>(s, l). fsub s l) (zip S (lag_spec S)))
           [0 := map (\<lambda>(s, l). fsub s l) (zip S (lag_spec S)) ! 1])"
  then have i: "i < length S" by (simp add: lag_spec_def)
  have len: "length (lag_spec S) = length S" by (simp add: lag_spec_def)
  show "(map (\<lambda>(s, l). fsub s l) (zip S (lag_spec S)))
           [0 := map (\<lambda>(s, l). fsub s l) (zip S (lag_spec S)) ! 1] ! i = delta_spec S ! i"
    using assms i len by (cases i) (simp_all add: delta_spec_def)
qed


text \<open>On the example library the slope is the first difference, here -1, and the half-life is 1.\<close>

lemma calculate_half_life_lib_ex:
  assumes "OLS_fit lib = ols_ex"
  shows "calculate_half_life lib [Fin x1, Fin x2] = Inr (fround (fdiv (Fin (- ln 2)) (Fin (x2 - x1))))"
  using assms by (simp add: calculate_half_life_def shift1_def ols_ex_def Let_def)


section \<open>The bounds check on the half-life\<close>

lemma check_pair_bounds:
  assumes "column df quote_market = Inr series_2"
    and "calculate_cointegration lib series_1 series_2 = Inr 1"
    and "calculate_hedge_ratio_and_spread lib [(base_market, series_1), (quote_market, series_2)]
           base_market quote_market = Inr (hedge_ratio, spread)"
    and "test_for_stationarity lib (spread_column (dropna (pair_rows series_1 series_2 hedge_ratio spread))) = Inr True"
    and "calculate_half_life lib (spread_column (dropna (pair_rows series_1 series_2 hedge_ratio spread))) = Inr h"
  shows "check_pair lib df base_market series_1 quote_market acc =
           Inr (if flt h (Fin 0) \<or> fgt h (Fin 24) then acc
                else acc @ [\<lparr>row_base_market = base_market, row_quote_market = quote_market, row_half_life = h\<rparr>])"
  using assms by (simp add: check_pair_def Let_def)




text \<open>
  C10: when \<open>calculate_half_life\<close> returns NaN for a pair that passed the two tests,
  the condition \<open>half_life < 0 or half_life > 24\<close> is false and the pair is appended
  to the accepted pairs with the half-life NaN.
\<close>

theorem nan_half_life_is_appended:
  assumes "column df quote_market = Inr series_2"
    and "calculate_cointegration lib series_1 series_2 = Inr 1"
    and "calculate_hedge_ratio_and_spread lib [(base_market, series_1), (quote_market, series_2)]
           base_market quote_market = Inr (hedge_ratio, spread)"
    and "test_for_stationarity lib (spread_column (dropna (pair_rows series_1 series_2 hedge_ratio spread))) = Inr True"
    and "calculate_half_life lib (spread_column (dropna (pair_rows series_1 series_2 hedge_ratio spread))) = Inr NaN"
  shows "\<not> (flt NaN (Fin 0) \<or> fgt NaN (Fin 24)) \<and>
         check_pair lib df base_market series_1 quote_market acc =
           Inr (acc @ [\<lparr>row_base_market = base_market, row_quote_market = quote_market, row_half_life = NaN\<rparr>])"
  using check_pair_bounds [OF assms] by (simp add: fgt_def)

lemma calculate_half_life_nan_slope:
  assumes "2 \<le> length S"
    and "OLS_fit lib (delta_spec S) (add_constant lib (lag_spec S)) = Inr params"
    and "2 \<le> length params" and "params ! 1 = NaN"
  shows "calculate_half_life lib S = Inr NaN"
proof -
  have len: "\<not> length (shift1 S) < 2" using assms(1) by (auto simp: shift1_def)
  show ?thesis
    unfolding calculate_half_life_def Let_def
      lag_source_eq_spec [OF assms(1)] delta_source_eq_spec [OF assms(1)]
    using len assms(2-4) by simp
qed

text \<open>
  The example series have 169 observations, so two rows are left after \<open>dropna\<close>; with
  hedge ratio 0 the spread is the base series.
\<close>

lemma hedge_spread_zero_fit:
  assumes "window_fit lib = (\<lambda>endog exog. Fin 0)"
  shows "calculate_hedge_ratio_and_spread lib
           [(b, replicate 167 (Fin x) @ [Fin x1, Fin x2]), (q, replicate 167 (Fin y) @ [Fin y1, Fin y2])] b q =
         Inr (replicate 167 NaN @ [Fin 0, Fin 0], replicate 167 NaN @ [Fin x1, Fin x2])"
  using assms
  by (simp add: calculate_hedge_ratio_and_spread_def column_def RollingOLS_params_split Let_def)

lemma spread_after_dropna:
  "spread_column (dropna (pair_rows (replicate 167 (Fin x) @ [Fin x1, Fin x2])
      (replicate 167 (Fin y) @ [Fin y1, Fin y2])
      (replicate 167 NaN @ [Fin 0, Fin 0]) (replicate 167 NaN @ [Fin x1, Fin x2]))) = [Fin x1, Fin x2]"
  by (simp add: spread_column_def dropna_def pair_rows_def)

lemma calculate_cointegration_example:
  assumes "coint lib = coint lib_ex"
  shows "calculate_cointegration lib (replicate 167 (Fin x) @ [Fin x1, Fin x2])
           (replicate 167 (Fin y) @ [Fin y1, Fin y2]) = Inr 1"
  using assms by (simp add: calculate_cointegration_def lib_ex_def list_ex_iff)

lemma test_for_stationarity_example:
  assumes "adfuller lib = adfuller lib_ex"
  shows "test_for_stationarity lib s = Inr True"
  using assms by (simp add: test_for_stationarity_def lib_ex_def)

lemma check_pair_example:
  assumes "coint lib = coint lib_ex" and "adfuller lib = adfuller lib_ex"
    and "window_fit lib = window_fit lib_ex"
    and "column df q = Inr (replicate 167 (Fin y) @ [Fin y1, Fin y2])"
    and "calculate_half_life lib [Fin x1, Fin x2] = Inr h"
  shows "check_pair lib df b (replicate 167 (Fin x) @ [Fin x1, Fin x2]) q acc =
           Inr (if flt h (Fin 0) \<or> fgt h (Fin 24) then acc
                else acc @ [\<lparr>row_base_market = b, row_quote_market = q, row_half_life = h\<rparr>])"
proof -
  have w: "window_fit lib = (\<lambda>endog exog. Fin 0)"
    using assms(3) by (simp add: lib_ex_def)
  show ?thesis
    by (rule check_pair_bounds [OF assms(4) calculate_cointegration_example [OF assms(1)]
          hedge_spread_zero_fit [OF w]])
       (simp_all only: spread_after_dropna test_for_stationarity_example [OF assms(2)] assms(5))
qed

lemma half_life_sA: "OLS_fit lib = ols_ex \<Longrightarrow> calculate_half_life lib [Fin 1, Fin 0] = Inr (Fin 1)"
  by (simp add: calculate_half_life_lib_ex round_ln2)


lemma half_life_lib_nan: "calculate_half_life lib_nan [Fin x1, Fin x2] = Inr NaN"
  by (simp add: calculate_half_life_def shift1_def lib_nan_def Let_def)



text \<open>With the degenerate regression a pair of the example series is appended with NaN.\<close>

theorem nan_half_life_is_appended_witness:
  "column [(''A'', sA), (''C'', sC)] ''C'' = Inr sC \<and>
   calculate_cointegration lib_nan sA sC = Inr 1 \<and>
   calculate_hedge_ratio_and_spread lib_nan [(''A'', sA), (''C'', sC)] ''A'' ''C'' =
     Inr (replicate 167 NaN @ [Fin 0, Fin 0], replicate 167 NaN @ [Fin 1, Fin 0]) \<and>
   test_for_stationarity lib_nan (spread_column (dropna (pair_rows sA sC
     (replicate 167 NaN @ [Fin 0, Fin 0]) (replicate 167 NaN @ [Fin 1, Fin 0])))) = Inr True \<and>
   calculate_half_life lib_nan (spread_column (dropna (pair_rows sA sC
     (replicate 167 NaN @ [Fin 0, Fin 0]) (replicate 167 NaN @ [Fin 1, Fin 0])))) = Inr NaN \<and>
   check_pair lib_nan [(''A'', sA), (''C'', sC)] ''A'' sA ''C'' [] =
     Inr [\<lparr>row_base_market = ''A'', row_quote_market = ''C'', row_half_life = NaN\<rparr>]"
proof -
  let ?hr = "replicate 167 NaN @ [Fin 0, Fin 0]" and ?sp = "replicate 167 NaN @ [Fin 1, Fin 0]"
  have h1: "column [(''A'', sA), (''C'', sC)] ''C'' = Inr sC" by (simp add: column_def)
  have h2: "calculate_cointegration lib_nan sA sC = Inr 1"
    unfolding sA_def sC_def by (rule calculate_cointegration_example) (simp add: lib_nan_def)
  have h3: "calculate_hedge_ratio_and_spread lib_nan [(''A'', sA), (''C'', sC)] ''A'' ''C'' = Inr (?hr, ?sp)"
    unfolding sA_def sC_def by (rule hedge_spread_zero_fit) (simp add: lib_nan_def lib_ex_def)
  have sc: "spread_column (dropna (pair_rows sA sC ?hr ?sp)) = [Fin 1, Fin 0]"
    unfolding sA_def sC_def by (rule spread_after_dropna)
  have h4: "test_for_stationarity lib_nan (spread_column (dropna (pair_rows sA sC ?hr ?sp))) = Inr True"
    by (rule test_for_stationarity_example) (simp add: lib_nan_def)
  have h5: "calculate_half_life lib_nan (spread_column (dropna (pair_rows sA sC ?hr ?sp))) = Inr NaN"
    unfolding sc by (rule half_life_lib_nan)
  show ?thesis
    using h1 h2 h3 h4 h5 nan_half_life_is_appended [OF h1 h2 h3 h4 h5, where acc = "[]"]
    by simp
qed

section \<open>The enumeration of candidate pairs\<close>

text \<open>The two nested loops of the source are one pass over the index pairs.\<close>

lemma drop_eq_map_nth: "drop k xs = map (\<lambda>j. xs ! j) [k..<length xs]"
  by (rule nth_equalityI) simp_all

lemma enumerate_butlast: "enumerate 0 (butlast xs) = map (\<lambda>i. (i, xs ! i)) [0..<length xs - 1]"
  by (rule nth_equalityI) (simp_all add: nth_enumerate_eq nth_butlast)

lemma pairs_loop_spec_append:
  "pairs_loop_spec lib df markets (ps @ qs) acc =
     (case pairs_loop_spec lib df markets ps acc of
        Inl e \<Rightarrow> Inl e
      | Inr acc' \<Rightarrow> pairs_loop_spec lib df markets qs acc')"
  by (induction ps arbitrary: acc) (auto split: sum.splits)

lemma quote_loop_eq_pairs_loop_spec:
  assumes "column df (markets ! i) = Inr series_1"
  shows "quote_loop lib df (markets ! i) series_1 (map (\<lambda>j. markets ! j) js) acc =
         pairs_loop_spec lib df markets (map (\<lambda>j. (i, j)) js) acc"
  using assms by (induction js arbitrary: acc) (auto split: sum.splits)

lemma pairs_loop_spec_column_error:
  assumes "column df (markets ! i) = Inl e" and "js \<noteq> []"
  shows "pairs_loop_spec lib df markets (map (\<lambda>j. (i, j)) js) acc = Inl e"
  using assms by (cases js) auto

lemma base_loop_eq_pairs_loop_spec_aux:
  assumes "\<forall>i \<in> set is. i + 1 < length markets"
  shows "base_loop lib df markets (map (\<lambda>i. (i, markets ! i)) is) acc =
         pairs_loop_spec lib df markets
           (concat (map (\<lambda>i. map (\<lambda>j. (i, j)) [i + 1..<length markets]) is)) acc"
  using assms
proof (induction "is" arbitrary: acc)
  case Nil
  then show ?case by simp
next
  case (Cons i "is")
  have ne: "[i + 1..<length markets] \<noteq> []" using Cons.prems by auto
  show ?case
  proof (cases "column df (markets ! i)")
    case (Inl e)
    then show ?thesis
      using pairs_loop_spec_column_error [OF Inl ne]
      by (simp add: pairs_loop_spec_append)
  next
    case (Inr series_1)
    have "quote_loop lib df (markets ! i) series_1 (drop (i + 1) markets) acc =
          pairs_loop_spec lib df markets (map (\<lambda>j. (i, j)) [i + 1..<length markets]) acc"
      using quote_loop_eq_pairs_loop_spec [OF Inr, of lib "[i + 1..<length markets]" acc]
      by (simp only: drop_eq_map_nth [of "i + 1" markets])
    then show ?thesis
      using Inr Cons by (simp add: pairs_loop_spec_append split: sum.splits)
  qed
qed

lemma base_loop_eq_pairs_loop_spec:
  "base_loop lib df markets (enumerate 0 (butlast markets)) acc =
   pairs_loop_spec lib df markets (index_pairs_spec (length markets)) acc"
proof -
  have "\<forall>i \<in> set [0..<length markets - 1]. i + 1 < length markets" by auto
  then show ?thesis
    unfolding enumerate_butlast index_pairs_spec_def by (rule base_loop_eq_pairs_loop_spec_aux)
qed

lemma sum_list_descending: "sum_list (map (\<lambda>i. m - i) [0..<m]) = m * (m + 1) div 2"
proof (induction m)
  case 0
  then show ?case by simp
next
  case (Suc m)
  have "[0..<Suc m] = 0 # map Suc [0..<m]"
    by (simp add: upt_conv_Cons map_Suc_upt del: upt_Suc)
  then have "sum_list (map (\<lambda>i. Suc m - i) [0..<Suc m]) =
             Suc m + sum_list (map (\<lambda>i. m - i) [0..<m])"
    by (simp add: comp_def del: upt_Suc)
  then show ?case using Suc by simp
qed

lemma length_index_pairs: "length (index_pairs_spec n) = n choose 2"
proof -
  have "length (index_pairs_spec n) = sum_list (map (\<lambda>i. (n - 1) - i) [0..<n - 1])"
    by (simp add: index_pairs_spec_def length_concat comp_def)
  also have "\<dots> = (n - 1) * (n - 1 + 1) div 2" by (rule sum_list_descending)
  also have "\<dots> = n choose 2" by (cases n) (simp_all add: choose_two mult.commute)
  finally show ?thesis .
qed

lemma set_pairs_from:
  "set (concat (map (\<lambda>i. map (\<lambda>j. (i, j)) [i + 1..<n]) [k..<m])) =
     {(i, j). k \<le> i \<and> i < m \<and> i < j \<and> j < n}"
  by auto

lemma set_index_pairs: "set (index_pairs_spec n) = {(i, j). i < j \<and> j < n}"
  unfolding index_pairs_spec_def set_pairs_from by auto

lemma sorted_pairs_from:
  "sorted_wrt (\<lambda>(i, j) (i', j'). i < i' \<or> (i = i' \<and> j < j'))
     (concat (map (\<lambda>i. map (\<lambda>j. (i, j)) [i + 1..<n]) [k..<m]))"
proof (induction "m - k" arbitrary: k)
  case 0
  then show ?case by simp
next
  case (Suc d)
  then have km: "k < m" by simp
  have ih: "sorted_wrt (\<lambda>(i, j) (i', j'). i < i' \<or> (i = i' \<and> j < j'))
     (concat (map (\<lambda>i. map (\<lambda>j. (i, j)) [i + 1..<n]) [Suc k..<m]))"
    using Suc by simp
  have row: "sorted_wrt (\<lambda>(i, j) (i', j'). i < i' \<or> (i = i' \<and> j < j')) (map (\<lambda>j. (k, j)) [k + 1..<n])"
    by (simp add: sorted_wrt_map del: upt_Suc)
  have cross: "\<forall>x \<in> set (map (\<lambda>j. (k, j)) [k + 1..<n]).
     \<forall>y \<in> set (concat (map (\<lambda>i. map (\<lambda>j. (i, j)) [i + 1..<n]) [Suc k..<m])).
       (case x of (i, j) \<Rightarrow> \<lambda>(i', j'). i < i' \<or> (i = i' \<and> j < j')) y"
    unfolding set_pairs_from by auto
  have "[k..<m] = k # [Suc k..<m]" using km by (simp add: upt_conv_Cons)
  then show ?case
    using ih row cross by (simp add: sorted_wrt_append del: upt_Suc)
qed

lemma sorted_index_pairs:
  "sorted_wrt (\<lambda>(i, j) (i', j'). i < i' \<or> (i = i' \<and> j < j')) (index_pairs_spec n)"
  unfolding index_pairs_spec_def by (rule sorted_pairs_from)

lemma distinct_index_pairs: "distinct (index_pairs_spec n)"
proof -
  have "sorted_wrt (\<lambda>x y. x \<noteq> y) (index_pairs_spec n)"
    by (rule sorted_wrt_mono_rel [OF _ sorted_index_pairs]) auto
  then show ?thesis
    unfolding distinct_conv_nth sorted_wrt_iff_nth_less by (metis nat_neq_iff)
qed

lemma column_nth:
  assumes "distinct (map fst df)" and "i < length df"
  shows "column df (map fst df ! i) = Inr (snd (df ! i))"
proof -
  have "map_of df (fst (df ! i)) = Some (snd (df ! i))"
    using assms by (simp add: map_of_eq_Some_iff)
  then show ?thesis using assms(2) by (simp add: column_def)
qed

text \<open>
  C6: on a table of n series with distinct labels, \<open>store_cointegration_results\<close> runs the
  per-pair evaluation over the index pairs (i, j) in the order i from 0 to n - 2 and j from
  i + 1 to n - 1, stopping only when an evaluation raises. These are the C(n, 2) pairs with
  i < j < n, each once, and the base series of a pair is the column at the earlier position.
\<close>

theorem store_enumerates_each_pair_once:
  assumes "distinct (map fst df)" and "markets = map fst df" and "n = length df"
  shows "store_cointegration_results lib df =
           (case pairs_loop_spec lib df markets (index_pairs_spec n) [] of
              Inl e \<Rightarrow> Inl e
            | Inr criteria_met_pairs \<Rightarrow>
                (case sort_values lib criteria_met_pairs of
                   Inl e \<Rightarrow> Inl e
                 | Inr df_criteria_met \<Rightarrow> Inr (df_criteria_met, ''saved''))) \<and>
         length (index_pairs_spec n) = n choose 2 \<and>
         set (index_pairs_spec n) = {(i, j). i < j \<and> j < n} \<and>
         distinct (index_pairs_spec n) \<and>
         sorted_wrt (\<lambda>(i, j) (i', j'). i < i' \<or> (i = i' \<and> j < j')) (index_pairs_spec n) \<and>
         (\<forall>i < n. column df (markets ! i) = Inr (snd (df ! i)))"
proof -
  have "store_cointegration_results lib df =
           (case pairs_loop_spec lib df markets (index_pairs_spec n) [] of
              Inl e \<Rightarrow> Inl e
            | Inr criteria_met_pairs \<Rightarrow>
                (case sort_values lib criteria_met_pairs of
                   Inl e \<Rightarrow> Inl e
                 | Inr df_criteria_met \<Rightarrow> Inr (df_criteria_met, ''saved'')))"
    using assms(2,3)
    by (simp add: store_cointegration_results_def Let_def base_loop_eq_pairs_loop_spec)
  moreover have "\<forall>i < n. column df (markets ! i) = Inr (snd (df ! i))"
    using assms column_nth by simp
  ultimately show ?thesis
    using length_index_pairs set_index_pairs distinct_index_pairs sorted_index_pairs by simp
qed

lemma index_pairs_spec_3: "index_pairs_spec 3 = [(0, 1), (0, 2), (1, 2)]"
  by (simp add: index_pairs_spec_def upt_conv_Cons)

text \<open>Three series give the three pairs (0, 1), (0, 2), (1, 2).\<close>

theorem store_enumerates_each_pair_once_witness:
  "distinct (map fst df_ABC) \<and> length df_ABC = 3 \<and>
   length (index_pairs_spec 3) = 3 \<and>
   set (index_pairs_spec 3) = {(i, j). i < j \<and> j < 3} \<and>
   column df_ABC (map fst df_ABC ! 1) = Inr sB"
proof -
  have h1: "distinct (map fst df_ABC)" by (simp add: df_ABC_def)
  have h2: "map fst df_ABC = map fst df_ABC" by simp
  have h3: "3 = length df_ABC" by (simp add: df_ABC_def)
  have "snd (df_ABC ! 1) = sB" by (simp add: df_ABC_def)
  then show ?thesis
    using h1 h3 store_enumerates_each_pair_once [OF h1 h2 h3, of lib_ex]
    by (simp add: choose_two)
qed







section \<open>The report\<close>







lemma index_pairs_spec_2: "index_pairs_spec 2 = [(0, 1)]"
  by (simp add: index_pairs_spec_def upt_conv_Cons)

text \<open>
  With the degenerate regression the pair with the NaN half-life is the report of the run.
\<close>

lemma nan_row_in_report:
  "store_cointegration_results lib_nan [(''A'', sA), (''C'', sC)] =
     Inr ([\<lparr>row_base_market = ''A'', row_quote_market = ''C'', row_half_life = NaN\<rparr>], ''saved'')"
proof -
  let ?df = "[(''A'', sA), (''C'', sC)]"
  let ?row = "\<lparr>row_base_market = ''A'', row_quote_market = ''C'', row_half_life = NaN\<rparr>"
  have c: "coint lib_nan = coint lib_ex" and a: "adfuller lib_nan = adfuller lib_ex"
    and w: "window_fit lib_nan = window_fit lib_ex"
    by (simp_all add: lib_nan_def)
  have cA: "column ?df ''A'' = Inr sA" and cC: "column ?df ''C'' = Inr sC"
    by (simp_all add: column_def)
  have cC': "column ?df ''C'' = Inr (replicate 167 (Fin 2) @ [Fin 2, Fin 3])"
    by (simp add: column_def sC_def)
  have ac: "check_pair lib_nan ?df ''A'' sA ''C'' [] = Inr [?row]"
    using check_pair_example [OF c a w cC' half_life_lib_nan [of 1 0],
        where b = "''A''" and x = 1 and acc = "[]"]
    by (simp add: sA_def fgt_def)
  have len: "length (map fst ?df) = 2" and m: "map fst ?df = [''A'', ''C'']" by simp_all
  have "pairs_loop_spec lib_nan ?df (map fst ?df) (index_pairs_spec 2) [] = Inr [?row]"
    unfolding index_pairs_spec_2 m using cA ac by simp
  then have "pairs_loop_spec lib_nan ?df (map fst ?df) (index_pairs_spec (length (map fst ?df))) [] = Inr [?row]"
    by (simp only: len)
  then have bl: "base_loop lib_nan ?df (map fst ?df) (enumerate 0 (butlast (map fst ?df))) [] = Inr [?row]"
    by (simp only: base_loop_eq_pairs_loop_spec)
  have sv: "sort_values lib_nan [?row] = Inr [?row]"
    by (simp add: sort_values_def lib_nan_def lib_ex_def)
  show ?thesis
    unfolding store_cointegration_results_def Let_def bl using sv by simp
qed

section \<open>Failures\<close>

text \<open>
  C8 (amended): no exception is caught. When the evaluation of a candidate pair raises,
  after the pairs before it have been evaluated, \<open>store_cointegration_results\<close> raises the
  same exception: the remaining pairs are not evaluated and no report is written.
\<close>

theorem pair_failure_aborts_run:
  assumes "markets = map fst df"
    and "index_pairs_spec (length df) = ps @ (i, j) # rest"
    and "pairs_loop_spec lib df markets ps [] = Inr acc"
    and "column df (markets ! i) = Inr series_1"
    and "check_pair lib df (markets ! i) series_1 (markets ! j) acc = Inl e"
  shows "store_cointegration_results lib df = Inl e"
proof -
  have "pairs_loop_spec lib df markets (index_pairs_spec (length markets)) [] = Inl e"
    using assms by (simp add: pairs_loop_spec_append)
  then show ?thesis
    using assms(1) by (simp add: store_cointegration_results_def Let_def base_loop_eq_pairs_loop_spec)
qed

lemma check_pair_missing_value:
  assumes "column df q = Inr sX"
  shows "check_pair lib_ex df b sA q acc = Inl (LibraryError ''MissingDataError'')"
  using assms
  by (simp add: check_pair_def calculate_cointegration_def lib_ex_def sX_def list_ex_iff)

text \<open>A series with a missing value as the second column: the first pair raises.\<close>

theorem pair_failure_aborts_run_witness:
  "index_pairs_spec (length df_AXB) = [] @ (0, 1) # [(0, 2), (1, 2)] \<and>
   pairs_loop_spec lib_ex df_AXB (map fst df_AXB) [] [] = Inr [] \<and>
   column df_AXB (map fst df_AXB ! 0) = Inr sA \<and>
   check_pair lib_ex df_AXB (map fst df_AXB ! 0) sA (map fst df_AXB ! 1) [] =
     Inl (LibraryError ''MissingDataError'') \<and>
   store_cointegration_results lib_ex df_AXB = Inl (LibraryError ''MissingDataError'')"
proof -
  have h1: "map fst df_AXB = map fst df_AXB" by simp
  have len: "length df_AXB = 3" by (simp add: df_AXB_def)
  have h2: "index_pairs_spec (length df_AXB) = [] @ (0, 1) # [(0, 2), (1, 2)]"
    unfolding len index_pairs_spec_3 by simp
  have h3: "pairs_loop_spec lib_ex df_AXB (map fst df_AXB) [] [] = Inr []" by simp
  have h4: "column df_AXB (map fst df_AXB ! 0) = Inr sA" by (simp add: df_AXB_def column_def)
  have "column df_AXB ''X'' = Inr sX" by (simp add: df_AXB_def column_def)
  then have h5: "check_pair lib_ex df_AXB (map fst df_AXB ! 0) sA (map fst df_AXB ! 1) [] =
     Inl (LibraryError ''MissingDataError'')"
    using check_pair_missing_value by (simp add: df_AXB_def)
  show ?thesis
    using h2 h3 h4 h5 pair_failure_aborts_run [OF h1 h2 h3 h4 h5] by simp
qed

text \<open>
  The claim as first stated fails: the pair (A, B) is accepted, the evaluation of the
  pair (A, X) raises, and the run ends with that exception instead of a report.
\<close>

theorem bad_pair_counterexample:
  "check_pair lib_ex df_ABX ''A'' sA ''B'' [] = Inr [row_AB] \<and>
   check_pair lib_ex df_ABX ''A'' sA ''X'' [row_AB] = Inl (LibraryError ''MissingDataError'') \<and>
   store_cointegration_results lib_ex df_ABX = Inl (LibraryError ''MissingDataError'')"
proof -
  have cA: "column df_ABX ''A'' = Inr sA" and cB: "column df_ABX ''B'' = Inr sB"
    and cX: "column df_ABX ''X'' = Inr sX"
    by (simp_all add: column_def df_ABX_def)
  have l: "coint lib_ex = coint lib_ex" "adfuller lib_ex = adfuller lib_ex"
    "window_fit lib_ex = window_fit lib_ex" by simp_all
  have o: "OLS_fit lib_ex = ols_ex" by (simp add: lib_ex_def)
  have ab: "check_pair lib_ex df_ABX ''A'' sA ''B'' [] = Inr [row_AB]"
    using check_pair_example [OF l cB [unfolded sB_def] half_life_sA [OF o],
        where b = "''A''" and x = 1 and acc = "[]"]
    by (simp add: sA_def fgt_def row_AB_def)
  have ax: "check_pair lib_ex df_ABX ''A'' sA ''X'' [row_AB] = Inl (LibraryError ''MissingDataError'')"
    by (rule check_pair_missing_value [OF cX])
  have len: "length (map fst df_ABX) = 3" and m: "map fst df_ABX = [''A'', ''B'', ''X'']"
    by (simp_all add: df_ABX_def)
  have "pairs_loop_spec lib_ex df_ABX (map fst df_ABX) (index_pairs_spec 3) [] =
          Inl (LibraryError ''MissingDataError'')"
    unfolding index_pairs_spec_3 m using cA ab ax by simp
  then have "pairs_loop_spec lib_ex df_ABX (map fst df_ABX) (index_pairs_spec (length (map fst df_ABX))) [] =
          Inl (LibraryError ''MissingDataError'')"
    by (simp only: len)
  then have "store_cointegration_results lib_ex df_ABX = Inl (LibraryError ''MissingDataError'')"
    by (simp only: store_cointegration_results_def Let_def base_loop_eq_pairs_loop_spec sum.case)
  then show ?thesis using ab ax by simp
qed

text \<open>
  C9: a run in which no pair is accepted does not complete. The table built from the empty
  list of accepted pairs has no column \<open>half_life\<close>, so \<open>sort_values\<close> raises KeyError:
  no report is written and \<open>saved\<close> is not returned. This is so for two series that fail
  the cointegration test, and for a table of a single series, which has no pair at all.
\<close>

theorem empty_report_raises:
  "calculate_cointegration lib_no_coint [Fin 1, Fin 2, Fin 1, Fin 0] [Fin 5, Fin 4, Fin 6, Fin 7] = Inr 0 \<and>
   base_loop lib_no_coint df_rw (map fst df_rw) (enumerate 0 (butlast (map fst df_rw))) [] = Inr [] \<and>
   store_cointegration_results lib_no_coint df_rw = Inl (KeyError ''half_life'') \<and>
   store_cointegration_results lib_ex [(''A'', sA)] = Inl (KeyError ''half_life'')"
  by (simp add: store_cointegration_results_def Let_def sort_values_def df_rw_def column_def
      check_pair_def calculate_cointegration_def lib_no_coint_def lib_ex_def)

end
